theory Spec2Isabelle
  imports Main "HOL-Library.Word" "HOL-Library.Sublist"
begin

section \<open>Win32 scalar types and result codes\<close>

text \<open>
  \<open>DWORD\<close> is an unsigned 32-bit integer, \<open>USHORT\<close> an unsigned 16-bit one.  A
  \<open>HANDLE\<close> is pointer sized; the 32-bit build is modelled, and only the two
  distinguished values \<open>NULL\<close> (0) and \<open>INVALID_HANDLE_VALUE\<close> (-1) are ever
  compared against.  The numeric result codes are the ones of the Windows SDK headers
  (\<open>winerror.h\<close>, \<open>winbase.h\<close>), which the sources include.
\<close>

type_synonym DWORD = "32 word"
type_synonym USHORT = "16 word"
type_synonym HANDLE = "32 word"

definition ERROR_SUCCESS :: DWORD where
  "ERROR_SUCCESS = 0"

definition WAIT_TIMEOUT :: DWORD where
  "WAIT_TIMEOUT = 258"

definition ERROR_SYSTEM_PROCESS_TERMINATED :: DWORD where
  "ERROR_SYSTEM_PROCESS_TERMINATED = 591"

definition ERROR_OPERATION_ABORTED :: DWORD where
  "ERROR_OPERATION_ABORTED = 995"

definition ERROR_UNKNOWN_PORT :: DWORD where
  "ERROR_UNKNOWN_PORT = 1796"

definition MAXDWORD :: DWORD where
  "MAXDWORD = 0xFFFFFFFF"

definition INVALID_HANDLE_VALUE :: HANDLE where
  "INVALID_HANDLE_VALUE = - 1"

section \<open>utilities.cpp: tick arithmetic\<close>

text \<open>
  \<^verbatim>\<open>DWORD GetTickCountDiff(DWORD start, DWORD end)\<close>: unsigned comparison, unsigned
  (wrapping) subtraction and addition.
\<close>

definition GetTickCountDiff :: "DWORD \<Rightarrow> DWORD \<Rightarrow> DWORD" where
  "GetTickCountDiff start end' =
     (if start = 0 then 0
      else if end' < start then (MAXDWORD - start) + end'
      else end' - start)"

section \<open>utilities.cpp: WaitForConnectability\<close>

text \<open>
  The loop of \<open>WaitForConnectability\<close> talks to the operating system four times per
  iteration.  What the system answers in one iteration is a \<open>poll_obs\<close>:
  \<^item> \<open>tick\<close>: the value of \<open>GetTickCount()\<close> read at the top of the iteration;
  \<^item> \<open>connected\<close>: whether the connection attempt of this iteration succeeded, that is
    the eight-fold conjunction from \<open>INVALID_SOCKET != sock\<close> to
    \<open>iErrorCode[FD_CONNECT_BIT] == 0\<close> (the wait inside it is the 100 ms slice);
  \<^item> \<open>process_signalled\<close>: whether \<open>WaitForSingleObject(process, 0)\<close> is \<open>WAIT_OBJECT_0\<close>;
  \<^item> \<open>stop_signalled\<close>: the value of \<open>stopSignal->CheckSignal(stopReasons)\<close>.
  A call consumes the tick read before the loop and then one observation per iteration.
  The list of observations is finite: when it is used up before the loop ends, the model
  answers \<open>None\<close> (the call has not returned yet).
\<close>

record poll_obs =
  tick :: DWORD
  connected :: bool
  process_signalled :: bool
  stop_signalled :: bool

record wait_env =
  start_tick :: DWORD
  polls :: "poll_obs list"

text \<open>\<open>StopInfo\<close> holds a pointer to the stop signal; only whether it is null matters.\<close>

record StopInfo =
  stopSignal_present :: bool

text \<open>The system calls of one run, in program order.\<close>

datatype wait_event = ReadTick | ConnectAttempt | ProcessCheck | StopCheck

text \<open>The loop's exit test on the clock, on unsigned 32-bit values (the sum wraps).\<close>

definition deadline_passed :: "DWORD \<Rightarrow> DWORD \<Rightarrow> DWORD \<Rightarrow> bool" where
  "deadline_passed start maxWaitMilliseconds now \<longleftrightarrow>
     now < start \<or> now \<ge> start + maxWaitMilliseconds"

text \<open>
  The two guarded checks after a failed connection attempt.  Both are short-circuit
  conjunctions in the source: the system is asked only when the handle, respectively the
  stop signal, is not null.
\<close>

definition process_check :: "HANDLE \<Rightarrow> wait_event list" where
  "process_check process = (if process \<noteq> 0 then [ProcessCheck] else [])"

definition stop_check :: "StopInfo \<Rightarrow> wait_event list" where
  "stop_check stopInfo = (if stopSignal_present stopInfo then [StopCheck] else [])"

fun wait_loop ::
  "DWORD \<Rightarrow> DWORD \<Rightarrow> HANDLE \<Rightarrow> StopInfo \<Rightarrow> poll_obs list \<Rightarrow> DWORD option \<times> wait_event list"
where
  "wait_loop start maxWait process stopInfo [] = (None, [])"
| "wait_loop start maxWait process stopInfo (ob # obs) =
     (if deadline_passed start maxWait (tick ob) then
        (Some WAIT_TIMEOUT, [ReadTick])
      else if connected ob then
        (Some ERROR_SUCCESS, [ReadTick, ConnectAttempt])
      else if process \<noteq> 0 \<and> process_signalled ob then
        (Some ERROR_SYSTEM_PROCESS_TERMINATED, [ReadTick, ConnectAttempt, ProcessCheck])
      else if stopSignal_present stopInfo \<and> stop_signalled ob then
        (Some ERROR_OPERATION_ABORTED,
         [ReadTick, ConnectAttempt] @ process_check process @ [StopCheck])
      else
        (let (r, evs) = wait_loop start maxWait process stopInfo obs
         in (r, [ReadTick, ConnectAttempt] @ process_check process @ stop_check stopInfo @ evs)))"

definition WaitForConnectability ::
  "USHORT \<Rightarrow> DWORD \<Rightarrow> HANDLE \<Rightarrow> StopInfo \<Rightarrow> wait_env \<Rightarrow> DWORD option \<times> wait_event list"
where
  "WaitForConnectability port timeout process stopInfo env =
     (if uint port \<le> 0 \<or> uint port > 0xFFFF then (Some ERROR_UNKNOWN_PORT, [])
      else wait_loop (start_tick env) timeout process stopInfo (polls env))"

section \<open>utilities.cpp: TestForOpenPort\<close>

text \<open>
  One probe of \<open>TestForOpenPort\<close>: \<open>WaitForConnectability((USHORT)targetPort, 100, 0,
  stopInfo)\<close>.  Each candidate port is probed in its own environment.
\<close>

definition port_probe :: "StopInfo \<Rightarrow> (int \<Rightarrow> wait_env) \<Rightarrow> int \<Rightarrow> DWORD option" where
  "port_probe stopInfo env p =
     fst (WaitForConnectability (word_of_int p) 100 0 stopInfo (env p))"

text \<open>
  The \<open>do ... while (++targetPort <= maxPort)\<close> loop.  The result is \<open>None\<close> when a
  probe does not return; otherwise the returned flag, the final value of the reference
  parameter \<open>targetPort\<close>, and the ports probed, in the order of the probes.  The
  source's \<open>int\<close> is modelled by \<open>int\<close>: signed overflow of \<open>targetPort + maxIncrement\<close>
  is undefined in C++, and no caller comes near it.
\<close>

function TestForOpenPort_loop ::
  "(int \<Rightarrow> DWORD option) \<Rightarrow> int \<Rightarrow> int \<Rightarrow> int list \<Rightarrow> (bool \<times> int \<times> int list) option"
where
  "TestForOpenPort_loop probe targetPort maxPort probed =
     (if targetPort > 0 \<and> targetPort \<le> 0xFFFF then
        (case probe targetPort of
           None \<Rightarrow> None
         | Some r \<Rightarrow>
             if ERROR_SUCCESS \<noteq> r then Some (True, targetPort, probed @ [targetPort])
             else if targetPort + 1 \<le> maxPort then
               TestForOpenPort_loop probe (targetPort + 1) maxPort (probed @ [targetPort])
             else Some (False, targetPort + 1, probed @ [targetPort]))
      else if targetPort + 1 \<le> maxPort then
        TestForOpenPort_loop probe (targetPort + 1) maxPort probed
      else Some (False, targetPort + 1, probed))"
  by pat_completeness auto
termination
  by (relation "measure (\<lambda>(probe, targetPort, maxPort, probed). nat (maxPort - targetPort))") auto

definition TestForOpenPort ::
  "int \<Rightarrow> int \<Rightarrow> StopInfo \<Rightarrow> (int \<Rightarrow> wait_env) \<Rightarrow> (bool \<times> int \<times> int list) option"
where
  "TestForOpenPort targetPort maxIncrement stopInfo env =
     TestForOpenPort_loop (port_probe stopInfo env) targetPort (targetPort + maxIncrement) []"

section \<open>Strings and the command line\<close>

text \<open>
  A \<open>std::string\<close> and a \<open>tstring\<close> are sequences of character units; both are
  modelled as \<open>string\<close>.
\<close>

type_synonym tstring = string

text \<open>
  Modelled from the spec: \<open>NarrowToTString\<close> is declared in \<open>utilities.h\<close> and its body
  is not among the sources.  It converts a narrow string to a \<open>tstring\<close> unit by unit; the
  spec requires the password to reach the command line byte for byte, so the conversion is
  the identity on the modelled units.
\<close>

definition NarrowToTString :: "string \<Rightarrow> tstring" where
  "NarrowToTString s = s"

text \<open>
  \<open>s.c_str()\<close> written to a stream with \<open><<\<close>: the stream receives a pointer to a
  zero-terminated array and copies the units before the first zero.
\<close>

definition c_str :: "tstring \<Rightarrow> tstring" where
  "c_str s = takeWhile (\<lambda>c. c \<noteq> CHR 0x00) s"

text \<open>An \<open>int\<close> written to a stream with \<open><<\<close>: decimal, with a minus sign when negative.\<close>

definition digit_char :: "nat \<Rightarrow> char" where
  "digit_char d = ''0123456789'' ! d"

fun digits :: "nat \<Rightarrow> string" where
  "digits n = (if n < 10 then [digit_char n] else digits (n div 10) @ [digit_char (n mod 10)])"

declare digits.simps [simp del]

definition show_int :: "int \<Rightarrow> tstring" where
  "show_int i = (if i < 0 then CHR ''-'' # digits (nat (- i)) else digits (nat i))"




section \<open>Session data and the proxy settings collaborator\<close>

text \<open>
  \<open>SessionInfo\<close> is declared in \<open>sessioninfo.h\<close>; the transport only reads it through
  its getters, which are the fields here.
\<close>

record SessionInfo =
  ServerAddress :: string
  SSHPort :: int
  SSHObfuscatedPort :: int
  SSHHostKey :: string
  SSHUsername :: string
  SSHPassword :: string
  SSHObfuscatedKey :: string
  ClientSessionID :: string

text \<open>
  What the registry (\<open>UserSkipSSHParentProxySettings\<close>, \<open>UserSSHParentProxy...\<close>) and
  \<open>SystemProxySettings::GetUserLanProxy\<close> answer.  \<open>GetUserLanProxy\<close> returns a flag and
  writes type, host name and port through its reference parameters.
\<close>

record proxy_env =
  UserSkipSSHParentProxySettings :: bool
  UserSSHParentProxyType :: string
  UserSSHParentProxyHostname :: string
  UserSSHParentProxyPort :: int
  UserSSHParentProxyUsername :: string
  UserSSHParentProxyPassword :: string
  GetUserLanProxy :: "bool \<times> tstring \<times> tstring \<times> int"

text \<open>
  \<open>SSHTransportBase::GetUserParentProxySettings\<close>: the flag and the five output
  parameters (type, host name, port, user name, password).
\<close>

definition GetUserParentProxySettings ::
  "proxy_env \<Rightarrow> bool \<times> tstring \<times> tstring \<times> int \<times> tstring \<times> tstring"
where
  "GetUserParentProxySettings px =
     (if UserSkipSSHParentProxySettings px then (False, [], [], 0, [], [])
      else
        let ptype = NarrowToTString (UserSSHParentProxyType px);
            phost = NarrowToTString (UserSSHParentProxyHostname px);
            pport = UserSSHParentProxyPort px;
            puser = NarrowToTString (UserSSHParentProxyUsername px);
            ppass = NarrowToTString (UserSSHParentProxyPassword px)
        in if ptype \<noteq> [] \<and> phost \<noteq> [] \<and> 0 \<noteq> pport then (True, ptype, phost, pport, puser, ppass)
           else (case GetUserLanProxy px of
                   (ok, ltype, lhost, lport) \<Rightarrow> (ok, ltype, lhost, lport, puser, ppass)))"

section \<open>The transport: state, cleanup, parameter building\<close>

record PROCESS_INFORMATION =
  hProcess :: HANDLE
  hThread :: HANDLE
  dwProcessId :: DWORD
  dwThreadId :: DWORD

text \<open>\<open>ZeroMemory(&m_plonkProcessInfo, sizeof(m_plonkProcessInfo))\<close>.\<close>

definition zero_process_info :: PROCESS_INFORMATION where
  "zero_process_info = \<lparr>hProcess = 0, hThread = 0, dwProcessId = 0, dwThreadId = 0\<rparr>"

record SSHTransportBase =
  m_plonkProcessInfo :: PROCESS_INFORMATION
  m_localSocksProxyPort :: int
  m_plonkPath :: tstring
  m_stopInfo :: StopInfo

definition DEFAULT_PLONK_SOCKS_PROXY_PORT :: int where
  "DEFAULT_PLONK_SOCKS_PROXY_PORT = 1080"

definition SSH_CONNECTION_TIMEOUT_SECONDS :: DWORD where
  "SSH_CONNECTION_TIMEOUT_SECONDS = 20"

text \<open>The two transports that derive from \<open>SSHTransportBase\<close>.\<close>

datatype transport_kind = SSHTransport | OSSHTransport

text \<open>
  What a connection attempt does to the world outside the object, in program order.
  \<open>Call_Cleanup\<close> marks an entry into \<open>Cleanup\<close>, so that a call that finds no process
  still shows.
\<close>

datatype sys_event =
    Call_Cleanup
  | Ev_StopProcess DWORD HANDLE
  | Ev_CloseHandle HANDLE
  | Ev_ExtractExecutable
  | Ev_ProbePort int
  | Ev_SetPlonkSSHHostKey tstring int tstring
  | Ev_CreateProcess tstring tstring
  | Ev_WaitForInputIdle HANDLE
  | Ev_WaitForConnectability int HANDLE
  | Ev_SetSocksProxyPort int

text \<open>
  \<open>SSHTransportBase::Cleanup\<close>.  \<open>StopProcess\<close> (utilities.cpp) asks the process to
  stop and then terminates it; it returns nothing and throws nothing, a failure is only
  logged.
\<close>

definition Cleanup :: "SSHTransportBase \<Rightarrow> bool \<times> SSHTransportBase \<times> sys_event list" where
  "Cleanup st =
     (let pinfo = m_plonkProcessInfo st;
          ev1 = (if hProcess pinfo \<noteq> 0 \<and> hProcess pinfo \<noteq> INVALID_HANDLE_VALUE
                 then [Ev_StopProcess (dwProcessId pinfo) (hProcess pinfo)] else []);
          ev2 = (if hProcess pinfo \<noteq> 0 \<and> hProcess pinfo \<noteq> INVALID_HANDLE_VALUE
                 then [Ev_CloseHandle (hProcess pinfo)] else [])
      in (True, st\<lparr>m_plonkProcessInfo := zero_process_info\<rparr>, Call_Cleanup # ev1 @ ev2))"

definition IsServerSSHCapable :: "SessionInfo \<Rightarrow> bool" where
  "IsServerSSHCapable sessionInfo \<longleftrightarrow> length (SSHHostKey sessionInfo) > 0"


text \<open>The four output parameters of \<open>GetSSHParams\<close>; \<open>None\<close> stands for \<open>return false\<close>.\<close>

record ssh_params =
  serverAddress :: tstring
  serverPort :: int
  serverHostKey :: tstring
  plonkCommandLine :: tstring

text \<open>The upstream proxy arguments appended by \<open>SSHTransportBase::GetSSHParams\<close>.\<close>

definition proxy_args :: "proxy_env \<Rightarrow> tstring" where
  "proxy_args px =
     (case GetUserParentProxySettings px of
        (ok, proxy_type, proxy_host, proxy_port, proxy_username, proxy_password) \<Rightarrow>
          if ok then
            '' -proxy_type '' @ c_str proxy_type
            @ '' -proxy_host '' @ c_str proxy_host
            @ '' -proxy_port '' @ show_int proxy_port
            @ (if proxy_username \<noteq> [] then '' -proxy_username '' @ c_str proxy_username else [])
            @ (if proxy_password \<noteq> [] then '' -proxy_password '' @ c_str proxy_password else [])
          else [])"

text \<open>
  \<open>SSHTransportBase::GetSSHParams\<close>.  \<open>debug\<close> is the compile-time switch \<open>_DEBUG\<close>.
  The server port is read from \<open>GetSSHObfuscatedPort\<close>, as in the source.
\<close>

definition SSHTransportBase_GetSSHParams ::
  "bool \<Rightarrow> SSHTransportBase \<Rightarrow> SessionInfo \<Rightarrow> int \<Rightarrow> string \<Rightarrow> proxy_env \<Rightarrow> ssh_params option"
where
  "SSHTransportBase_GetSSHParams debug st sessionInfo localSocksProxyPort sshPassword px =
     (let o_serverAddress = NarrowToTString (ServerAddress sessionInfo);
          o_serverPort = SSHObfuscatedPort sessionInfo;
          o_serverHostKey = NarrowToTString (SSHHostKey sessionInfo);
          args = '' -ssh -C -N -batch''
                 @ '' -P '' @ show_int o_serverPort
                 @ '' -l '' @ c_str (NarrowToTString (SSHUsername sessionInfo))
                 @ '' -pw '' @ c_str (NarrowToTString sshPassword)
                 @ '' -D '' @ show_int localSocksProxyPort
                 @ (if debug then '' -v'' else [])
                 @ proxy_args px
      in Some \<lparr>serverAddress = o_serverAddress, serverPort = o_serverPort,
               serverHostKey = o_serverHostKey,
               plonkCommandLine = m_plonkPath st @ args\<rparr>)"

text \<open>
  \<open>SSHTransport::GetSSHParams\<close> and \<open>OSSHTransport::GetSSHParams\<close>.  The plain one
  writes the address as a \<open>tstring\<close>, the obfuscated one through \<open>c_str()\<close>.
\<close>

fun GetSSHParams ::
  "transport_kind \<Rightarrow> bool \<Rightarrow> SSHTransportBase \<Rightarrow> SessionInfo \<Rightarrow> int \<Rightarrow> string \<Rightarrow> proxy_env
     \<Rightarrow> ssh_params option"
where
  "GetSSHParams SSHTransport debug st sessionInfo localSocksProxyPort sshPassword px =
     (case SSHTransportBase_GetSSHParams debug st sessionInfo localSocksProxyPort sshPassword px of
        None \<Rightarrow> None
      | Some base \<Rightarrow>
          Some (base\<lparr>plonkCommandLine :=
                  plonkCommandLine base @ '' '' @ serverAddress base\<rparr>))"
| "GetSSHParams OSSHTransport debug st sessionInfo localSocksProxyPort sshPassword px =
     (if SSHObfuscatedPort sessionInfo \<le> 0 \<or> length (SSHObfuscatedKey sessionInfo) \<le> 0 then None
      else
        case SSHTransportBase_GetSSHParams debug st sessionInfo localSocksProxyPort sshPassword px of
          None \<Rightarrow> None
        | Some base \<Rightarrow>
            Some (base\<lparr>plonkCommandLine :=
                    plonkCommandLine base
                    @ '' -z -Z '' @ c_str (NarrowToTString (SSHObfuscatedKey sessionInfo))
                    @ '' '' @ c_str (serverAddress base)\<rparr>))"

section \<open>The transport: launching and connecting\<close>

text \<open>
  The collaborators of one connection attempt:
  \<^item> \<open>debug_build\<close>: the compile-time switch \<open>_DEBUG\<close>;
  \<^item> \<open>extract_executable\<close>: what \<open>ExtractExecutable\<close> answers, \<open>None\<close> for failure and
    otherwise the path it writes to \<open>m_plonkPath\<close>;
  \<^item> \<open>port_polls\<close>: what the system answers while the candidate port is probed;
  \<^item> \<open>proxy\<close>: registry and system proxy settings;
  \<^item> \<open>create_process\<close>: what \<open>CreateProcess\<close> answers for an executable path and a command
    line, \<open>None\<close> for failure and otherwise the process information it fills in;
  \<^item> \<open>connect_polls\<close>: what the system answers during the connectivity wait.
\<close>

record world =
  debug_build :: bool
  extract_executable :: "tstring option"
  port_polls :: "int \<Rightarrow> wait_env"
  proxy :: proxy_env
  create_process :: "tstring \<Rightarrow> tstring \<Rightarrow> PROCESS_INFORMATION option"
  connect_polls :: wait_env

text \<open>The exceptions a connection attempt throws, and how a call ends.\<close>

datatype exn = TransportFailed | Abort | Error

datatype outcome = Returned | Threw exn

text \<open>\<open>SSHTransportBase::LaunchPlonk\<close>.\<close>

definition LaunchPlonk ::
  "SSHTransportBase \<Rightarrow> world \<Rightarrow> tstring \<Rightarrow> bool \<times> SSHTransportBase \<times> sys_event list"
where
  "LaunchPlonk st w commandLine =
     (case create_process w (m_plonkPath st) commandLine of
        None \<Rightarrow> (False, st, [Ev_CreateProcess (m_plonkPath st) commandLine])
      | Some pinfo \<Rightarrow>
          (True, st\<lparr>m_plonkProcessInfo := pinfo\<lparr>hThread := 0\<rparr>\<rparr>,
           [Ev_CreateProcess (m_plonkPath st) commandLine,
            Ev_CloseHandle (hThread pinfo),
            Ev_WaitForInputIdle (hProcess pinfo)]))"

text \<open>
  \<open>SSHTransportBase::TransportConnectHelper\<close>, in four parts that follow the source from
  top to bottom.  Each part returns \<open>None\<close> when a wait inside it has not returned, and
  otherwise how the helper ended, the object's state and the events so far.
\<close>

definition connect_wait ::
  "SSHTransportBase \<Rightarrow> world \<Rightarrow> sys_event list
     \<Rightarrow> (outcome \<times> SSHTransportBase \<times> sys_event list) option"
where
  "connect_wait st w evs =
     (let evs1 = evs @ [Ev_WaitForConnectability (m_localSocksProxyPort st)
                          (hProcess (m_plonkProcessInfo st))]
      in case fst (WaitForConnectability
                     (word_of_int (m_localSocksProxyPort st))
                     (SSH_CONNECTION_TIMEOUT_SECONDS * 1000)
                     (hProcess (m_plonkProcessInfo st))
                     (m_stopInfo st)
                     (connect_polls w)) of
           None \<Rightarrow> None
         | Some result \<Rightarrow>
             if ERROR_OPERATION_ABORTED = result then Some (Threw Abort, st, evs1)
             else if ERROR_SUCCESS \<noteq> result then Some (Threw TransportFailed, st, evs1)
             else Some (Returned, st, evs1 @ [Ev_SetSocksProxyPort (m_localSocksProxyPort st)]))"

definition launch_and_wait ::
  "SSHTransportBase \<Rightarrow> world \<Rightarrow> ssh_params \<Rightarrow> sys_event list
     \<Rightarrow> (outcome \<times> SSHTransportBase \<times> sys_event list) option"
where
  "launch_and_wait st w params evs =
     (let evs1 = evs @ [Ev_SetPlonkSSHHostKey (serverAddress params) (serverPort params)
                          (serverHostKey params)]
      in case LaunchPlonk st w (plonkCommandLine params) of
           (launched, st1, evl) \<Rightarrow>
             if \<not> launched then Some (Threw TransportFailed, st1, evs1 @ evl)
             else connect_wait st1 w (evs1 @ evl))"

definition negotiate_and_build ::
  "transport_kind \<Rightarrow> SSHTransportBase \<Rightarrow> SessionInfo \<Rightarrow> world \<Rightarrow> sys_event list
     \<Rightarrow> (outcome \<times> SSHTransportBase \<times> sys_event list) option"
where
  "negotiate_and_build kind st sessionInfo w evs =
     (let sshPassword = ClientSessionID sessionInfo @ SSHPassword sessionInfo;
          st1 = st\<lparr>m_localSocksProxyPort := DEFAULT_PLONK_SOCKS_PROXY_PORT\<rparr>
      in case TestForOpenPort (m_localSocksProxyPort st1) 10 (m_stopInfo st1) (port_polls w) of
           None \<Rightarrow> None
         | Some (found, port, probed) \<Rightarrow>
             let st2 = st1\<lparr>m_localSocksProxyPort := port\<rparr>;
                 evs1 = evs @ map Ev_ProbePort probed
             in if \<not> found then Some (Threw TransportFailed, st2, evs1)
                else
                  case GetSSHParams kind (debug_build w) st2 sessionInfo
                         (m_localSocksProxyPort st2) sshPassword (proxy w) of
                    None \<Rightarrow> Some (Threw TransportFailed, st2, evs1)
                  | Some params \<Rightarrow> launch_and_wait st2 w params evs1)"

definition TransportConnectHelper ::
  "transport_kind \<Rightarrow> SSHTransportBase \<Rightarrow> SessionInfo \<Rightarrow> world
     \<Rightarrow> (outcome \<times> SSHTransportBase \<times> sys_event list) option"
where
  "TransportConnectHelper kind st sessionInfo w =
     (if m_plonkPath st = [] \<and> extract_executable w = None then
        Some (Threw TransportFailed, st, [Ev_ExtractExecutable])
      else
        let st1 = (if m_plonkPath st = []
                   then st\<lparr>m_plonkPath := the (extract_executable w)\<rparr> else st);
            evs0 = (if m_plonkPath st = [] then [Ev_ExtractExecutable] else [])
        in case Cleanup st1 of
             (cleaned, st2, evc) \<Rightarrow>
               if \<not> cleaned then Some (Threw Error, st2, evs0 @ evc)
               else negotiate_and_build kind st2 sessionInfo w (evs0 @ evc))"

text \<open>
  \<open>SSHTransportBase::TransportConnect\<close>: the capability test, then the helper inside
  \<open>try { ... } catch (...) { (void)Cleanup(); throw; }\<close>.
\<close>

definition TransportConnect ::
  "transport_kind \<Rightarrow> SSHTransportBase \<Rightarrow> SessionInfo \<Rightarrow> world
     \<Rightarrow> (outcome \<times> SSHTransportBase \<times> sys_event list) option"
where
  "TransportConnect kind st sessionInfo w =
     (if \<not> IsServerSSHCapable sessionInfo then Some (Threw TransportFailed, st, [])
      else
        case TransportConnectHelper kind st sessionInfo w of
          None \<Rightarrow> None
        | Some (Returned, st1, evs) \<Rightarrow> Some (Returned, st1, evs)
        | Some (Threw e, st1, evs) \<Rightarrow>
            (case Cleanup st1 of (cleaned, st2, evc) \<Rightarrow> Some (Threw e, st2, evs @ evc)))"

section \<open>Notions used in the properties\<close>






text \<open>Sample observations: one quiet iteration, one that finds a listener, and so on.\<close>

definition quiet_at :: "DWORD \<Rightarrow> poll_obs" where
  "quiet_at t = \<lparr>tick = t, connected = False, process_signalled = False, stop_signalled = False\<rparr>"

definition listener_at :: "DWORD \<Rightarrow> poll_obs" where
  "listener_at t = \<lparr>tick = t, connected = True, process_signalled = False, stop_signalled = False\<rparr>"

text \<open>A 100 ms probe of a port nobody listens on, and one of a port with a listener.\<close>

definition free_probe :: wait_env where
  "free_probe = \<lparr>start_tick = 5000, polls = [quiet_at 5000, quiet_at 5100]\<rparr>"


definition with_stop :: StopInfo where
  "with_stop = \<lparr>stopSignal_present = True\<rparr>"






text \<open>Events that start a subordinate process.\<close>

fun is_launch :: "sys_event \<Rightarrow> bool" where
  "is_launch (Ev_CreateProcess path commandLine) = True"
| "is_launch ev = False"

text \<open>
  A sample attempt: a session with every field present, a fresh transport object, no
  upstream proxy, an executable that is extracted to \<open>plonk.exe\<close>, free ports, a
  \<open>CreateProcess\<close> that succeeds with process handle 68 and process id 7, and a
  subordinate process whose SOCKS port accepts a connection in the second iteration.
\<close>

definition sample_session :: SessionInfo where
  "sample_session =
     \<lparr>ServerAddress = ''192.0.2.7'', SSHPort = 22, SSHObfuscatedPort = 443,
      SSHHostKey = ''AAAAB3NzaC1yc2E='', SSHUsername = ''user'', SSHPassword = ''secret'',
      SSHObfuscatedKey = ''k'', ClientSessionID = ''5E55''\<rparr>"

definition fresh_transport :: SSHTransportBase where
  "fresh_transport =
     \<lparr>m_plonkProcessInfo = zero_process_info,
      m_localSocksProxyPort = DEFAULT_PLONK_SOCKS_PROXY_PORT,
      m_plonkPath = [],
      m_stopInfo = with_stop\<rparr>"

definition no_proxy :: proxy_env where
  "no_proxy =
     \<lparr>UserSkipSSHParentProxySettings = True, UserSSHParentProxyType = [],
      UserSSHParentProxyHostname = [], UserSSHParentProxyPort = 0,
      UserSSHParentProxyUsername = [], UserSSHParentProxyPassword = [],
      GetUserLanProxy = (False, [], [], 0)\<rparr>"

definition sample_process :: PROCESS_INFORMATION where
  "sample_process = \<lparr>hProcess = 68, hThread = 72, dwProcessId = 7, dwThreadId = 9\<rparr>"

definition sample_world :: world where
  "sample_world =
     \<lparr>debug_build = False,
      extract_executable = Some ''plonk.exe'',
      port_polls = (\<lambda>p. free_probe),
      proxy = no_proxy,
      create_process = (\<lambda>path commandLine. Some sample_process),
      connect_polls = \<lparr>start_tick = 6000, polls = [quiet_at 6000, listener_at 6100]\<rparr>\<rparr>"

text \<open>The same world, except that the subordinate's port is never reachable.\<close>

definition unreachable_world :: world where
  "unreachable_world =
     sample_world\<lparr>connect_polls := \<lparr>start_tick = 6000, polls = [quiet_at 6000, quiet_at 26000]\<rparr>\<rparr>"

text \<open>A transport object that still holds the process of an earlier, successful attempt.\<close>

definition connected_transport :: SSHTransportBase where
  "connected_transport =
     fresh_transport\<lparr>m_plonkProcessInfo := sample_process\<lparr>hThread := 0\<rparr>,
                     m_plonkPath := ''plonk.exe''\<rparr>"




section \<open>Properties of the wait loop\<close>

lemma result_codes_distinct:
  "WAIT_TIMEOUT \<noteq> ERROR_SUCCESS" "WAIT_TIMEOUT \<noteq> ERROR_SYSTEM_PROCESS_TERMINATED"
  "WAIT_TIMEOUT \<noteq> ERROR_OPERATION_ABORTED" "WAIT_TIMEOUT \<noteq> ERROR_UNKNOWN_PORT"
  "ERROR_OPERATION_ABORTED \<noteq> ERROR_SUCCESS" "ERROR_SYSTEM_PROCESS_TERMINATED \<noteq> ERROR_SUCCESS"
  "ERROR_UNKNOWN_PORT \<noteq> ERROR_SUCCESS"
  by (simp_all add: WAIT_TIMEOUT_def ERROR_SUCCESS_def ERROR_SYSTEM_PROCESS_TERMINATED_def
        ERROR_OPERATION_ABORTED_def ERROR_UNKNOWN_PORT_def)




text \<open>
  When \<open>start + maxWait\<close> does not wrap, the loop's clock test says exactly that the
  elapsed time, taken modulo \<open>2 ^ 32\<close>, has reached \<open>maxWait\<close>.
\<close>

lemma deadline_passed_exact:
  assumes "unat start + unat maxWait < 2 ^ 32"
  shows "deadline_passed start maxWait now \<longleftrightarrow> maxWait \<le> now - start"
proof -
  have sum: "unat (start + maxWait) = unat start + unat maxWait"
    using assms by (simp add: unat_word_ariths)
  have now: "unat now < 2 ^ 32"
    using unsigned_less [of now, where 'a = nat] by simp
  show ?thesis
  proof (cases "now < start")
    case True
    then have "unat (now - start) = unat now + 2 ^ 32 - unat start"
      by (simp add: unat_sub_if_size word_less_nat_alt word_size)
    then have "unat maxWait \<le> unat (now - start)"
      using assms by linarith
    then show ?thesis
      using True by (simp add: deadline_passed_def word_le_nat_alt)
  next
    case False
    then have "unat (now - start) = unat now - unat start"
      by (simp add: unat_sub_if_size word_less_nat_alt word_size)
    moreover have "unat start \<le> unat now"
      using False by (simp add: word_less_nat_alt)
    ultimately show ?thesis
      using False sum by (auto simp: deadline_passed_def word_le_nat_alt)
  qed
qed

text \<open>When \<open>start + maxWait\<close> wraps, the clock test holds at every tick.\<close>

lemma deadline_passed_overflow:
  assumes "2 ^ 32 \<le> unat start + unat maxWait"
  shows "deadline_passed start maxWait now"
proof (cases "now < start")
  case True
  then show ?thesis by (simp add: deadline_passed_def)
next
  case False
  have "unat maxWait < 2 ^ 32"
    using unsigned_less [of maxWait, where 'a = nat] by simp
  moreover have "unat (start + maxWait) = unat start + unat maxWait - 2 ^ 32"
    using assms by (simp add: unat_plus_if_size word_size)
  ultimately have "unat (start + maxWait) < unat start"
    using assms by linarith
  then have "start + maxWait \<le> now"
    using False by (simp add: word_le_nat_alt word_less_nat_alt)
  then show ?thesis by (simp add: deadline_passed_def)
qed

lemma wait_loop_timeout_genuine:
  assumes "unat start + unat maxWait < 2 ^ 32"
    and "fst (wait_loop start maxWait process stopInfo obs) = Some WAIT_TIMEOUT"
  shows "\<exists>ob\<in>set obs. maxWait \<le> tick ob - start"
  using assms(2)
proof (induction obs)
  case Nil
  then show ?case by simp
next
  case (Cons ob obs)
  show ?case
  proof (cases "deadline_passed start maxWait (tick ob)")
    case True
    then show ?thesis
      using deadline_passed_exact [OF assms(1)] by auto
  next
    case False
    then have "fst (wait_loop start maxWait process stopInfo obs) = Some WAIT_TIMEOUT"
      using Cons.prems result_codes_distinct
      by (auto split: if_splits prod.splits)
    then show ?thesis
      using Cons.IH by auto
  qed
qed

text \<open>
  The wait returns once the clock is seen past the deadline: an observation list that
  holds such a tick is enough for the call to return.
\<close>

lemma wait_loop_returns:
  "\<exists>ob\<in>set obs. deadline_passed start maxWait (tick ob)
     \<Longrightarrow> fst (wait_loop start maxWait process stopInfo obs) \<noteq> None"
proof (induction obs)
  case Nil
  then show ?case by simp
next
  case (Cons a obs)
  show ?case
  proof (cases "deadline_passed start maxWait (tick a)")
    case True
    then show ?thesis by simp
  next
    case False
    then have "fst (wait_loop start maxWait process stopInfo obs) \<noteq> None"
      using Cons by auto
    then show ?thesis
      by (cases "wait_loop start maxWait process stopInfo obs") auto
  qed
qed

text \<open>
  \<open>GetTickCountDiff\<close> never exceeds the difference of its arguments modulo \<open>2 ^ 32\<close>.
\<close>

lemma GetTickCountDiff_le: "GetTickCountDiff start end' \<le> end' - start"
proof (cases "start \<noteq> 0 \<and> end' < start")
  case True
  then have ne: "end' - start \<noteq> 0"
    by auto
  have "unat (end' - start - 1) = unat (end' - start) - 1"
    using ne by (simp add: unat_minus_one)
  then have "end' - start - 1 \<le> end' - start"
    by (simp add: word_le_nat_alt)
  moreover have "GetTickCountDiff start end' = end' - start - 1"
    using True by (simp add: GetTickCountDiff_def MAXDWORD_def)
  ultimately show ?thesis
    by simp
next
  case False
  then show ?thesis
    by (auto simp: GetTickCountDiff_def)
qed

text \<open>
  C5 (as amended).  The waiter compares raw tick values and does not call
  \<open>GetTickCountDiff\<close> (whose result never exceeds the wrapped difference
  \<open>now - start\<close>).  Provided \<open>start + timeout\<close> does not exceed the largest tick value, the
  waiter's clock test is exact modulo \<open>2 ^ 32\<close>: an iteration times out if and only if the
  wrapped difference \<open>now - start\<close> has reached the timeout, so the wait returns
  \<open>WAIT_TIMEOUT\<close> only after an observed tick at least \<open>timeout\<close> milliseconds past the
  start, also when the counter wraps in between.  When \<open>start + timeout\<close> does exceed the
  largest tick value, the test holds at every tick: the wait times out in its first
  iteration.
\<close>

theorem WaitForConnectability_timeout_genuine:
  "(unat (start_tick env) + unat timeout < 2 ^ 32 \<longrightarrow>
      (deadline_passed (start_tick env) timeout now \<longleftrightarrow> timeout \<le> now - start_tick env)
    \<and> (fst (WaitForConnectability port timeout process stopInfo env) = Some WAIT_TIMEOUT
         \<longrightarrow> (\<exists>ob\<in>set (polls env). timeout \<le> tick ob - start_tick env)))
   \<and> (2 ^ 32 \<le> unat (start_tick env) + unat timeout \<longrightarrow>
        deadline_passed (start_tick env) timeout now)
   \<and> GetTickCountDiff (start_tick env) now \<le> now - start_tick env"
proof (intro conjI impI)
  assume fits: "unat (start_tick env) + unat timeout < 2 ^ 32"
  show "deadline_passed (start_tick env) timeout now \<longleftrightarrow> timeout \<le> now - start_tick env"
    using fits by (rule deadline_passed_exact)
  assume "fst (WaitForConnectability port timeout process stopInfo env) = Some WAIT_TIMEOUT"
  then have "fst (wait_loop (start_tick env) timeout process stopInfo (polls env))
               = Some WAIT_TIMEOUT"
    using result_codes_distinct by (auto simp: WaitForConnectability_def split: if_splits)
  with fits show "\<exists>ob\<in>set (polls env). timeout \<le> tick ob - start_tick env"
    by (rule wait_loop_timeout_genuine)
next
  assume "2 ^ 32 \<le> unat (start_tick env) + unat timeout"
  then show "deadline_passed (start_tick env) timeout now"
    by (rule deadline_passed_overflow)
next
  show "GetTickCountDiff (start_tick env) now \<le> now - start_tick env"
    by (rule GetTickCountDiff_le)
qed

theorem WaitForConnectability_timeout_genuine_witness:
  "fst (WaitForConnectability 1080 100 0 with_stop free_probe) = Some WAIT_TIMEOUT
   \<and> (\<exists>ob\<in>set (polls free_probe). (100 :: DWORD) \<le> tick ob - start_tick free_probe)"
proof -
  have h: "unat (start_tick free_probe) + unat (100 :: DWORD) < 2 ^ 32"
    by (simp add: free_probe_def)
  have r: "fst (WaitForConnectability 1080 100 0 with_stop free_probe) = Some WAIT_TIMEOUT"
    by (simp add: WaitForConnectability_def free_probe_def quiet_at_def with_stop_def
          deadline_passed_def process_check_def stop_check_def)
  show ?thesis
    using h r
      WaitForConnectability_timeout_genuine
        [where env = free_probe and timeout = 100 and port = 1080 and process = 0
           and stopInfo = with_stop and now = 0]
    by blast
qed

text \<open>
  C5, counterexample.  A wait of 20 seconds that starts 256 ms before the tick counter
  wraps: the sum \<open>start + 20000\<close> wraps, and the first iteration, reading the very tick the
  wait started at, reports \<open>WAIT_TIMEOUT\<close> with nothing elapsed and no connection attempt
  made.
\<close>

theorem WaitForConnectability_early_timeout:
  "WaitForConnectability 1080 (SSH_CONNECTION_TIMEOUT_SECONDS * 1000) 68 with_stop
     \<lparr>start_tick = 0xFFFFFF00, polls = [listener_at 0xFFFFFF00]\<rparr>
   = (Some WAIT_TIMEOUT, [ReadTick])"
  by (simp add: WaitForConnectability_def SSH_CONNECTION_TIMEOUT_SECONDS_def listener_at_def
        deadline_passed_def)



section \<open>Properties of the port search\<close>

declare TestForOpenPort_loop.simps [simp del]












section \<open>Properties of the transport\<close>

text \<open>
  C9.  \<open>Cleanup\<close> returns \<open>true\<close> from every state, whether a process was launched or
  not and whatever its handle; afterwards the stored process information is zeroed.  A
  second call in a row returns \<open>true\<close> again, leaves the state as the first call left it,
  and stops and closes nothing.
\<close>

theorem Cleanup_idempotent:
  "fst (Cleanup st) = True
   \<and> m_plonkProcessInfo (fst (snd (Cleanup st))) = zero_process_info
   \<and> fst (Cleanup (fst (snd (Cleanup st)))) = True
   \<and> fst (snd (Cleanup (fst (snd (Cleanup st))))) = fst (snd (Cleanup st))
   \<and> snd (snd (Cleanup (fst (snd (Cleanup st))))) = [Call_Cleanup]"
  by (simp add: Cleanup_def Let_def zero_process_info_def)


lemma Cleanup_eq:
  "Cleanup st =
     (True, st\<lparr>m_plonkProcessInfo := zero_process_info\<rparr>,
      Call_Cleanup #
      (if hProcess (m_plonkProcessInfo st) \<noteq> 0
          \<and> hProcess (m_plonkProcessInfo st) \<noteq> INVALID_HANDLE_VALUE
       then [Ev_StopProcess (dwProcessId (m_plonkProcessInfo st)) (hProcess (m_plonkProcessInfo st)),
             Ev_CloseHandle (hProcess (m_plonkProcessInfo st))]
       else []))"
  by (simp add: Cleanup_def Let_def)

lemma Cleanup_no_launch: "\<forall>ev\<in>set (snd (snd (Cleanup st))). \<not> is_launch ev"
  by (auto simp: Cleanup_eq)

text \<open>What the helper has done when it ends after the parameters were built.\<close>

lemma launch_and_wait_cases:
  assumes "launch_and_wait st w params evs = Some (oc, st', evs')"
  shows "(create_process w (m_plonkPath st) (plonkCommandLine params) = None
            \<and> oc = Threw TransportFailed \<and> st' = st
            \<and> evs' = evs @ [Ev_SetPlonkSSHHostKey (serverAddress params) (serverPort params)
                               (serverHostKey params),
                             Ev_CreateProcess (m_plonkPath st) (plonkCommandLine params)])
       \<or> (\<exists>pinfo tl. create_process w (m_plonkPath st) (plonkCommandLine params) = Some pinfo
            \<and> st' = st\<lparr>m_plonkProcessInfo := pinfo\<lparr>hThread := 0\<rparr>\<rparr>
            \<and> evs' = evs @ [Ev_SetPlonkSSHHostKey (serverAddress params) (serverPort params)
                               (serverHostKey params),
                             Ev_CreateProcess (m_plonkPath st) (plonkCommandLine params)] @ tl
            \<and> (\<forall>ev\<in>set tl. \<not> is_launch ev))"
  using assms
  by (auto simp: launch_and_wait_def LaunchPlonk_def connect_wait_def Let_def
           split: option.splits if_splits)

lemma negotiate_and_build_cases:
  assumes "negotiate_and_build kind st si w evs = Some (oc, st', evs')"
  obtains (no_params) probed where "oc = Threw TransportFailed"
      and "m_plonkProcessInfo st' = m_plonkProcessInfo st"
      and "evs' = evs @ map Ev_ProbePort probed"
    | (with_params) port probed params where
        "GetSSHParams kind (debug_build w) (st\<lparr>m_localSocksProxyPort := port\<rparr>) si port
           (ClientSessionID si @ SSHPassword si) (proxy w) = Some params"
      and "launch_and_wait (st\<lparr>m_localSocksProxyPort := port\<rparr>) w params
             (evs @ map Ev_ProbePort probed) = Some (oc, st', evs')"
proof -
  let ?st1 = "st\<lparr>m_localSocksProxyPort := DEFAULT_PLONK_SOCKS_PROXY_PORT\<rparr>"
  obtain found port probed
    where t: "TestForOpenPort DEFAULT_PLONK_SOCKS_PROXY_PORT 10 (m_stopInfo st) (port_polls w)
                = Some (found, port, probed)"
    using assms by (auto simp: negotiate_and_build_def Let_def split: option.splits)
  let ?st2 = "st\<lparr>m_localSocksProxyPort := port\<rparr>"
  let ?g = "GetSSHParams kind (debug_build w) ?st2 si port
              (ClientSessionID si @ SSHPassword si) (proxy w)"
  show thesis
  proof (cases "found \<and> ?g \<noteq> None")
    case False
    then have "oc = Threw TransportFailed \<and> st' = ?st2 \<and> evs' = evs @ map Ev_ProbePort probed"
      using assms t
      by (auto simp: negotiate_and_build_def Let_def simp del: GetSSHParams.simps
               split: option.splits if_splits)
    then show thesis
      using no_params [of probed] by simp
  next
    case True
    then obtain params where g: "?g = Some params"
      by auto
    then have "launch_and_wait ?st2 w params (evs @ map Ev_ProbePort probed) = Some (oc, st', evs')"
      using assms t True
      by (simp add: negotiate_and_build_def Let_def del: GetSSHParams.simps)
    then show thesis
      using with_params [of port params probed] g by simp
  qed
qed

lemma no_launch_D:
  "\<forall>ev\<in>set evs. \<not> is_launch ev \<Longrightarrow> Ev_CreateProcess path commandLine \<notin> set evs"
  by force

lemma helper_unfold:
  assumes "\<not> (m_plonkPath st = [] \<and> extract_executable w = None)"
  obtains st0 evs0 where "\<forall>ev\<in>set evs0. \<not> is_launch ev"
    and "TransportConnectHelper kind st si w =
           negotiate_and_build kind (st0\<lparr>m_plonkProcessInfo := zero_process_info\<rparr>) si w
             (evs0 @ snd (snd (Cleanup st)))"
proof (cases "m_plonkPath st = []")
  case True
  have "TransportConnectHelper kind st si w =
          negotiate_and_build kind
            (st\<lparr>m_plonkPath := the (extract_executable w),
                m_plonkProcessInfo := zero_process_info\<rparr>) si w
            ([Ev_ExtractExecutable] @ snd (snd (Cleanup st)))"
    using True assms by (auto simp: TransportConnectHelper_def Let_def Cleanup_eq)
  then show thesis
    using that [of "[Ev_ExtractExecutable]" "st\<lparr>m_plonkPath := the (extract_executable w)\<rparr>"]
    by simp
next
  case False
  have "TransportConnectHelper kind st si w =
          negotiate_and_build kind (st\<lparr>m_plonkProcessInfo := zero_process_info\<rparr>) si w
            ([] @ snd (snd (Cleanup st)))"
    using False by (simp add: TransportConnectHelper_def Let_def Cleanup_eq)
  then show thesis
    using that [of "[]" st] by simp
qed

lemma TransportConnectHelper_cases:
  assumes "TransportConnectHelper kind st si w = Some (oc, st1, evs1)"
  obtains (no_executable) "m_plonkPath st = []" and "extract_executable w = None"
      and "oc = Threw TransportFailed" and "st1 = st" and "evs1 = [Ev_ExtractExecutable]"
    | (early) evs0 probed where "oc = Threw TransportFailed"
      and "m_plonkProcessInfo st1 = zero_process_info"
      and "evs1 = evs0 @ snd (snd (Cleanup st)) @ map Ev_ProbePort probed"
      and "\<forall>ev\<in>set evs0. \<not> is_launch ev"
    | (built) evs0 probed st2 port params where
        "GetSSHParams kind (debug_build w) st2 si port
           (ClientSessionID si @ SSHPassword si) (proxy w) = Some params"
      and "m_plonkProcessInfo st2 = zero_process_info"
      and "\<forall>ev\<in>set evs0. \<not> is_launch ev"
      and "launch_and_wait st2 w params
             (evs0 @ snd (snd (Cleanup st)) @ map Ev_ProbePort probed) = Some (oc, st1, evs1)"
proof (cases "m_plonkPath st = [] \<and> extract_executable w = None")
  case True
  then have a: "m_plonkPath st = []" and b: "extract_executable w = None"
    by simp_all
  have c: "oc = Threw TransportFailed" and d: "st1 = st" and e: "evs1 = [Ev_ExtractExecutable]"
    using assms True by (simp_all add: TransportConnectHelper_def)
  show thesis
    using a b c d e by (rule no_executable)
next
  case False
  from False obtain st0 evs0
    where e0: "\<forall>ev\<in>set evs0. \<not> is_launch ev"
      and n: "TransportConnectHelper kind st si w =
                negotiate_and_build kind (st0\<lparr>m_plonkProcessInfo := zero_process_info\<rparr>) si w
                  (evs0 @ snd (snd (Cleanup st)))"
    by (rule helper_unfold)
  from n assms
  have "negotiate_and_build kind (st0\<lparr>m_plonkProcessInfo := zero_process_info\<rparr>) si w
          (evs0 @ snd (snd (Cleanup st))) = Some (oc, st1, evs1)"
    by simp
  then show thesis
  proof (cases rule: negotiate_and_build_cases)
    case (no_params probed)
    have a: "m_plonkProcessInfo st1 = zero_process_info"
      using no_params(2) by simp
    have b: "evs1 = evs0 @ snd (snd (Cleanup st)) @ map Ev_ProbePort probed"
      using no_params(3) by simp
    show ?thesis
      using no_params(1) a b e0 by (rule early)
  next
    case (with_params port probed params)
    have a: "m_plonkProcessInfo (st0\<lparr>m_plonkProcessInfo := zero_process_info,
                                     m_localSocksProxyPort := port\<rparr>) = zero_process_info"
      by simp
    have b: "launch_and_wait (st0\<lparr>m_plonkProcessInfo := zero_process_info,
                                  m_localSocksProxyPort := port\<rparr>) w params
             (evs0 @ snd (snd (Cleanup st)) @ map Ev_ProbePort probed) = Some (oc, st1, evs1)"
      using with_params(2) by simp
    show ?thesis
      using with_params(1) a e0 b by (rule built)
  qed
qed

text \<open>
  When the helper throws, the process information it leaves behind is that of the process
  it created, if it created one.
\<close>

lemma TransportConnectHelper_threw_state:
  assumes "TransportConnectHelper kind st si w = Some (Threw e, st1, evs1)"
    and "Ev_CreateProcess path commandLine \<in> set evs1"
    and "create_process w path commandLine = Some pinfo"
  shows "m_plonkProcessInfo st1 = pinfo\<lparr>hThread := 0\<rparr>"
  using assms(1)
proof (cases rule: TransportConnectHelper_cases)
  case no_executable
  then show ?thesis using assms(2) by simp
next
  case (early evs0 probed)
  then show ?thesis
    using assms(2) Cleanup_no_launch [of st] by auto
next
  case (built evs0 probed st2 port params)
  let ?evs2 = "evs0 @ snd (snd (Cleanup st)) @ map Ev_ProbePort probed"
  have quiet: "\<forall>ev\<in>set ?evs2. \<not> is_launch ev"
    using built(3) Cleanup_no_launch [of st] by auto
  from launch_and_wait_cases [OF built(4)] show ?thesis
  proof (elim disjE conjE exE)
    assume none: "create_process w (m_plonkPath st2) (plonkCommandLine params) = None"
      and "evs1 = ?evs2 @ [Ev_SetPlonkSSHHostKey (serverAddress params) (serverPort params)
                               (serverHostKey params),
                             Ev_CreateProcess (m_plonkPath st2) (plonkCommandLine params)]"
    then have "path = m_plonkPath st2 \<and> commandLine = plonkCommandLine params"
      using assms(2) no_launch_D [OF quiet, of path commandLine] by auto
    then show ?thesis
      using none assms(3) by simp
  next
    fix pinfo' tl
    assume some: "create_process w (m_plonkPath st2) (plonkCommandLine params) = Some pinfo'"
      and st1: "st1 = st2\<lparr>m_plonkProcessInfo := pinfo'\<lparr>hThread := 0\<rparr>\<rparr>"
      and "evs1 = ?evs2 @ [Ev_SetPlonkSSHHostKey (serverAddress params) (serverPort params)
                               (serverHostKey params),
                             Ev_CreateProcess (m_plonkPath st2) (plonkCommandLine params)] @ tl"
      and "\<forall>ev\<in>set tl. \<not> is_launch ev"
    then have "path = m_plonkPath st2 \<and> commandLine = plonkCommandLine params"
      using assms(2) no_launch_D [OF quiet, of path commandLine] by auto
    then show ?thesis
      using some st1 assms(3) by simp
  qed
qed

text \<open>When the parameters cannot be built, the helper fails without creating a process.\<close>

lemma TransportConnectHelper_no_params:
  assumes "\<And>st2 port. GetSSHParams kind (debug_build w) st2 si port
              (ClientSessionID si @ SSHPassword si) (proxy w) = None"
    and "TransportConnectHelper kind st si w = Some (oc, st1, evs1)"
  shows "oc = Threw TransportFailed \<and> (\<forall>ev\<in>set evs1. \<not> is_launch ev)"
  using assms(2)
proof (cases rule: TransportConnectHelper_cases)
  case no_executable
  then show ?thesis by simp
next
  case (early evs0 probed)
  then show ?thesis
    using Cleanup_no_launch [of st] by auto
next
  case (built evs0 probed st2 port params)
  then show ?thesis
    using assms(1) by simp
qed

lemma Cleanup_stops:
  assumes "hProcess (m_plonkProcessInfo st) \<noteq> 0"
    and "hProcess (m_plonkProcessInfo st) \<noteq> INVALID_HANDLE_VALUE"
  shows "Ev_StopProcess (dwProcessId (m_plonkProcessInfo st)) (hProcess (m_plonkProcessInfo st))
           \<in> set (snd (snd (Cleanup st)))
       \<and> Ev_CloseHandle (hProcess (m_plonkProcessInfo st)) \<in> set (snd (snd (Cleanup st)))"
  using assms by (simp add: Cleanup_eq)

text \<open>Unless the executable cannot be extracted, the helper begins with \<open>Cleanup\<close>.\<close>

lemma TransportConnectHelper_cleans_first:
  assumes "TransportConnectHelper kind st si w = Some (oc, st1, evs1)"
  shows "st1 = st \<or> (\<exists>before after. evs1 = before @ snd (snd (Cleanup st)) @ after)"
  using assms
proof (cases rule: TransportConnectHelper_cases)
  case no_executable
  then show ?thesis by simp
next
  case (early evs0 probed)
  then show ?thesis by blast
next
  case (built evs0 probed st2 port params)
  from launch_and_wait_cases [OF built(4)]
  obtain after where "evs1 = (evs0 @ snd (snd (Cleanup st)) @ map Ev_ProbePort probed) @ after"
    by auto
  then have "evs1 = evs0 @ snd (snd (Cleanup st)) @ (map Ev_ProbePort probed @ after)"
    by simp
  then show ?thesis by blast
qed

text \<open>
  C3.  For the obfuscated variant, a session whose obfuscated port is not positive or
  whose obfuscation key is empty makes \<open>OSSHTransport::GetSSHParams\<close> return \<open>false\<close>,
  whatever the other fields hold; a connection attempt with such a session, when it ends,
  ends with \<open>TransportFailed\<close> and has created no process.
\<close>

theorem OSSH_GetSSHParams_fails_fast:
  assumes "SSHObfuscatedPort si \<le> 0 \<or> SSHObfuscatedKey si = []"
  shows "GetSSHParams OSSHTransport debug st si localSocksProxyPort sshPassword px = None
     \<and> (\<forall>oc st' evs. TransportConnect OSSHTransport st si w = Some (oc, st', evs)
            \<longrightarrow> oc = Threw TransportFailed \<and> (\<forall>ev\<in>set evs. \<not> is_launch ev))"
proof -
  have none: "GetSSHParams OSSHTransport debug' st2 si port pw px' = None"
    for debug' st2 port pw px'
    using assms by auto
  have "oc = Threw TransportFailed \<and> (\<forall>ev\<in>set evs. \<not> is_launch ev)"
    if t: "TransportConnect OSSHTransport st si w = Some (oc, st', evs)" for oc st' evs
  proof (cases "IsServerSSHCapable si")
    case False
    then show ?thesis
      using t by (simp add: TransportConnect_def)
  next
    case True
    then obtain oc1 st1 evs1
      where h: "TransportConnectHelper OSSHTransport st si w = Some (oc1, st1, evs1)"
      using t by (auto simp: TransportConnect_def split: option.splits)
    have f: "oc1 = Threw TransportFailed \<and> (\<forall>ev\<in>set evs1. \<not> is_launch ev)"
      using none h by (rule TransportConnectHelper_no_params)
    then have "oc = Threw TransportFailed \<and> evs = evs1 @ snd (snd (Cleanup st1))"
      using t True h by (simp add: TransportConnect_def Cleanup_eq)
    then show ?thesis
      using f Cleanup_no_launch [of st1] by auto
  qed
  then show ?thesis
    using none by blast
qed

theorem OSSH_GetSSHParams_fails_fast_witness:
  "GetSSHParams OSSHTransport False fresh_transport (sample_session\<lparr>SSHObfuscatedKey := []\<rparr>)
     1080 ''5E55secret'' no_proxy = None
   \<and> TransportConnect OSSHTransport fresh_transport (sample_session\<lparr>SSHObfuscatedKey := []\<rparr>)
       sample_world
     = Some (Threw TransportFailed,
             fresh_transport\<lparr>m_plonkPath := ''plonk.exe''\<rparr>,
             [Ev_ExtractExecutable, Call_Cleanup, Ev_ProbePort 1080, Call_Cleanup])"
proof -
  have h: "SSHObfuscatedPort (sample_session\<lparr>SSHObfuscatedKey := []\<rparr>) \<le> 0
      \<or> SSHObfuscatedKey (sample_session\<lparr>SSHObfuscatedKey := []\<rparr>) = []"
    by simp
  have run: "TransportConnect OSSHTransport fresh_transport
               (sample_session\<lparr>SSHObfuscatedKey := []\<rparr>) sample_world
     = Some (Threw TransportFailed,
             fresh_transport\<lparr>m_plonkPath := ''plonk.exe''\<rparr>,
             [Ev_ExtractExecutable, Call_Cleanup, Ev_ProbePort 1080, Call_Cleanup])"
    by (simp add: TransportConnect_def TransportConnectHelper_def negotiate_and_build_def
          IsServerSSHCapable_def Cleanup_eq Let_def
          sample_session_def fresh_transport_def sample_world_def zero_process_info_def
          DEFAULT_PLONK_SOCKS_PROXY_PORT_def
          TestForOpenPort_def TestForOpenPort_loop.simps port_probe_def
          WaitForConnectability_def free_probe_def quiet_at_def
          deadline_passed_def with_stop_def process_check_def stop_check_def
          WAIT_TIMEOUT_def ERROR_SUCCESS_def)
  show ?thesis
    using OSSH_GetSSHParams_fails_fast
            [OF h, where debug = False and st = fresh_transport and localSocksProxyPort = 1080
               and sshPassword = "''5E55secret''" and px = no_proxy and w = sample_world]
          run
    by simp
qed





lemma failed_attempt_cleans_up:
  assumes "SSHHostKey si \<noteq> []"
    and "TransportConnect kind st si w = Some (Threw e, st', evs)"
  shows "m_plonkProcessInfo st' = zero_process_info
     \<and> (\<exists>st1 evs1. TransportConnectHelper kind st si w = Some (Threw e, st1, evs1)
            \<and> st' = fst (snd (Cleanup st1)) \<and> evs = evs1 @ snd (snd (Cleanup st1)))
     \<and> (\<forall>path commandLine pinfo.
            Ev_CreateProcess path commandLine \<in> set evs
          \<and> create_process w path commandLine = Some pinfo
          \<and> hProcess pinfo \<noteq> 0 \<and> hProcess pinfo \<noteq> INVALID_HANDLE_VALUE
          \<longrightarrow> suffix [Call_Cleanup,
                       Ev_StopProcess (dwProcessId pinfo) (hProcess pinfo),
                       Ev_CloseHandle (hProcess pinfo)] evs)
     \<and> (hProcess (m_plonkProcessInfo st) \<noteq> 0
          \<and> hProcess (m_plonkProcessInfo st) \<noteq> INVALID_HANDLE_VALUE
          \<longrightarrow> Ev_StopProcess (dwProcessId (m_plonkProcessInfo st))
                 (hProcess (m_plonkProcessInfo st)) \<in> set evs
              \<and> Ev_CloseHandle (hProcess (m_plonkProcessInfo st)) \<in> set evs)"
proof -
  from assms obtain oc1 st1 evs1
    where h0: "TransportConnectHelper kind st si w = Some (oc1, st1, evs1)"
    by (auto simp: TransportConnect_def IsServerSSHCapable_def split: option.splits)
  have oc1: "oc1 = Threw e" and st': "st' = fst (snd (Cleanup st1))"
    and evs: "evs = evs1 @ snd (snd (Cleanup st1))"
    using assms h0
    by (auto simp: TransportConnect_def IsServerSSHCapable_def Cleanup_eq split: outcome.splits)
  have h: "TransportConnectHelper kind st si w = Some (Threw e, st1, evs1)"
    using h0 oc1 by simp
  have zero: "m_plonkProcessInfo st' = zero_process_info"
    using st' by (simp add: Cleanup_eq)
  have stopped: "suffix [Call_Cleanup,
                         Ev_StopProcess (dwProcessId pinfo) (hProcess pinfo),
                         Ev_CloseHandle (hProcess pinfo)] evs"
    if ev: "Ev_CreateProcess path commandLine \<in> set evs"
      and cp: "create_process w path commandLine = Some pinfo"
      and ok: "hProcess pinfo \<noteq> 0" "hProcess pinfo \<noteq> INVALID_HANDLE_VALUE"
    for path commandLine pinfo
  proof -
    have "Ev_CreateProcess path commandLine \<in> set evs1"
      using ev evs no_launch_D [OF Cleanup_no_launch, of path commandLine st1] by auto
    then have "m_plonkProcessInfo st1 = pinfo\<lparr>hThread := 0\<rparr>"
      using h cp TransportConnectHelper_threw_state by blast
    then have "snd (snd (Cleanup st1)) =
                 [Call_Cleanup, Ev_StopProcess (dwProcessId pinfo) (hProcess pinfo),
                  Ev_CloseHandle (hProcess pinfo)]"
      using ok by (simp add: Cleanup_eq)
    then show ?thesis
      using evs by (simp add: suffix_def)
  qed
  have old: "Ev_StopProcess (dwProcessId (m_plonkProcessInfo st))
                 (hProcess (m_plonkProcessInfo st)) \<in> set evs
              \<and> Ev_CloseHandle (hProcess (m_plonkProcessInfo st)) \<in> set evs"
    if ok: "hProcess (m_plonkProcessInfo st) \<noteq> 0"
       "hProcess (m_plonkProcessInfo st) \<noteq> INVALID_HANDLE_VALUE"
  proof -
    from TransportConnectHelper_cleans_first [OF h]
    have "set (snd (snd (Cleanup st))) \<subseteq> set evs"
      using evs by auto
    then show ?thesis
      using Cleanup_stops [OF ok] by blast
  qed
  show ?thesis
    using zero h st' evs stopped old by blast
qed

lemma unreachable_attempt:
  "TransportConnect SSHTransport fresh_transport sample_session unreachable_world
     = Some (Threw TransportFailed,
             fresh_transport\<lparr>m_plonkPath := ''plonk.exe''\<rparr>,
             [Ev_ExtractExecutable, Call_Cleanup, Ev_ProbePort 1080,
              Ev_SetPlonkSSHHostKey ''192.0.2.7'' 443 ''AAAAB3NzaC1yc2E='',
              Ev_CreateProcess ''plonk.exe''
                ''plonk.exe -ssh -C -N -batch -P 443 -l user -pw 5E55secret -D 1080 192.0.2.7'',
              Ev_CloseHandle 72, Ev_WaitForInputIdle 68,
              Ev_WaitForConnectability 1080 68,
              Call_Cleanup, Ev_StopProcess 7 68, Ev_CloseHandle 68])"
  by code_simp

text \<open>
  C8 (as amended).  When a connection attempt that has passed the host key test ends by
  throwing, whether \<open>TransportFailed\<close>, \<open>Abort\<close> or \<open>Error\<close> and whether before or
  after the launch, \<open>Cleanup\<close> has run as its last step on the state the helper left: the
  stored process information is zeroed; a process created during the attempt with a usable
  handle has been passed to \<open>StopProcess\<close> and its handle closed, as the last events of
  the attempt; and so has a process the object still held when the attempt began.  An
  attempt refused by the host key test throws \<open>TransportFailed\<close> without \<open>Cleanup\<close>
  and leaves the object as it was.
\<close>

theorem TransportConnect_failure_cleans_up:
  "(SSHHostKey si \<noteq> [] \<and> TransportConnect kind st si w = Some (Threw e, st', evs) \<longrightarrow>
     m_plonkProcessInfo st' = zero_process_info
       \<and> (\<exists>st1 evs1. TransportConnectHelper kind st si w = Some (Threw e, st1, evs1)
              \<and> st' = fst (snd (Cleanup st1)) \<and> evs = evs1 @ snd (snd (Cleanup st1)))
       \<and> (\<forall>path commandLine pinfo.
              Ev_CreateProcess path commandLine \<in> set evs
            \<and> create_process w path commandLine = Some pinfo
            \<and> hProcess pinfo \<noteq> 0 \<and> hProcess pinfo \<noteq> INVALID_HANDLE_VALUE
            \<longrightarrow> suffix [Call_Cleanup,
                         Ev_StopProcess (dwProcessId pinfo) (hProcess pinfo),
                         Ev_CloseHandle (hProcess pinfo)] evs)
       \<and> (hProcess (m_plonkProcessInfo st) \<noteq> 0
            \<and> hProcess (m_plonkProcessInfo st) \<noteq> INVALID_HANDLE_VALUE
            \<longrightarrow> Ev_StopProcess (dwProcessId (m_plonkProcessInfo st))
                   (hProcess (m_plonkProcessInfo st)) \<in> set evs
                \<and> Ev_CloseHandle (hProcess (m_plonkProcessInfo st)) \<in> set evs))
   \<and> (SSHHostKey si = [] \<longrightarrow>
        TransportConnect kind st si w = Some (Threw TransportFailed, st, []))"
proof -
  have refused: "TransportConnect kind st si w = Some (Threw TransportFailed, st, [])"
    if "SSHHostKey si = []"
    using that by (simp add: TransportConnect_def IsServerSSHCapable_def)
  show ?thesis
    using failed_attempt_cleans_up [of si kind st w e st' evs] refused by blast
qed

theorem TransportConnect_failure_cleans_up_witness:
  "suffix [Call_Cleanup, Ev_StopProcess 7 68, Ev_CloseHandle 68]
     [Ev_ExtractExecutable, Call_Cleanup, Ev_ProbePort 1080,
      Ev_SetPlonkSSHHostKey ''192.0.2.7'' 443 ''AAAAB3NzaC1yc2E='',
      Ev_CreateProcess ''plonk.exe''
        ''plonk.exe -ssh -C -N -batch -P 443 -l user -pw 5E55secret -D 1080 192.0.2.7'',
      Ev_CloseHandle 72, Ev_WaitForInputIdle 68,
      Ev_WaitForConnectability 1080 68,
      Call_Cleanup, Ev_StopProcess 7 68, Ev_CloseHandle 68]"
  (is "suffix _ ?evs")
proof -
  let ?cmd = "''plonk.exe -ssh -C -N -batch -P 443 -l user -pw 5E55secret -D 1080 192.0.2.7''"
  have key: "SSHHostKey sample_session \<noteq> []"
    by (simp add: sample_session_def)
  have cp: "create_process unreachable_world ''plonk.exe'' ?cmd = Some sample_process"
    by (simp add: unreachable_world_def sample_world_def)
  have ok: "hProcess sample_process \<noteq> 0" "hProcess sample_process \<noteq> INVALID_HANDLE_VALUE"
    by (simp_all add: sample_process_def INVALID_HANDLE_VALUE_def)
  have launched: "Ev_CreateProcess ''plonk.exe'' ?cmd \<in> set ?evs"
    by simp
  note TransportConnect_failure_cleans_up
         [where si = sample_session and kind = SSHTransport and st = fresh_transport
            and w = unreachable_world and e = TransportFailed,
          THEN conjunct1, THEN mp, OF conjI [OF key unreachable_attempt]]
  then have "\<forall>path commandLine pinfo.
            Ev_CreateProcess path commandLine \<in> set ?evs
          \<and> create_process unreachable_world path commandLine = Some pinfo
          \<and> hProcess pinfo \<noteq> 0 \<and> hProcess pinfo \<noteq> INVALID_HANDLE_VALUE
          \<longrightarrow> suffix [Call_Cleanup,
                       Ev_StopProcess (dwProcessId pinfo) (hProcess pinfo),
                       Ev_CloseHandle (hProcess pinfo)] ?evs"
    by (elim conjE)
  then have "suffix [Call_Cleanup,
                     Ev_StopProcess (dwProcessId sample_process) (hProcess sample_process),
                     Ev_CloseHandle (hProcess sample_process)] ?evs"
    using launched cp ok by blast
  then show ?thesis
    by (simp add: sample_process_def del: suffix_Cons)
qed

text \<open>
  C8, counterexample.  The object still holds the process of an earlier attempt, and a new
  attempt is made with a session without host key: the attempt throws \<open>TransportFailed\<close>
  at the first test, outside the \<open>try\<close> block.  \<open>Cleanup\<close> is not called, nothing is
  stopped, and the object still holds process handle 68.
\<close>

theorem TransportConnect_refusal_skips_cleanup:
  "TransportConnect SSHTransport connected_transport (sample_session\<lparr>SSHHostKey := []\<rparr>)
     sample_world
     = Some (Threw TransportFailed, connected_transport, [])
   \<and> hProcess (m_plonkProcessInfo connected_transport) = 68"
  by (simp add: TransportConnect_def IsServerSSHCapable_def connected_transport_def
        sample_process_def)

section \<open>Properties of the command line\<close>




















end
